theory Spec2Isabelle
  imports Main "HOL-Library.Multiset" "HOL-Library.Char_ord" "HOL-Library.List_Lexorder"
begin

section \<open>The cache client (src/lib/redis/client.ts)\<close>

text \<open>
  The Upstash client is an external collaborator. Every call on it is a computation
  that reads and changes the outside world (a state of type \<open>'s\<close>) and either
  throws (\<open>Inl\<close>, the thrown value) or returns (\<open>Inr\<close>). A JavaScript value of type
  \<open>T | null\<close> is an \<open>'a option\<close>, with \<open>None\<close> for \<open>null\<close>; \<open>redis.get\<close>
  answers \<open>null\<close> for a key that is absent. The promises of the source are awaited one
  after the other, so the asynchronous code is sequential state passing.
\<close>

type_synonym ('s, 'e, 'r) js = "'s \<Rightarrow> ('e + 'r) \<times> 's"

record ('s, 'e, 'a) redis_client =
  redis_get :: "string \<Rightarrow> ('s, 'e, 'a option) js"
  redis_setex :: "string \<Rightarrow> nat \<Rightarrow> 'a option \<Rightarrow> ('s, 'e, unit) js"
  redis_keys :: "string \<Rightarrow> ('s, 'e, string list) js"
  redis_del :: "string list \<Rightarrow> ('s, 'e, nat) js"

text \<open>
  What a call of a helper does to its collaborators is recorded in the order in which
  it happens: the calls on the cache, the calls of the fetcher, and the console lines.
\<close>

datatype level = Log | Warn | Error

datatype 'a event =
    RedisGet string
  | RedisSetex string nat "'a option"
  | RedisKeys string
  | RedisDel "string list"
  | Fetcher
  | Console level

text \<open>\<open>ttl: number = 3600\<close>: an omitted argument takes the default.\<close>

definition ttl_or_default :: "nat option \<Rightarrow> nat" where
  "ttl_or_default ttl = (case ttl of None \<Rightarrow> 3600 | Some t \<Rightarrow> t)"

text \<open>
  \<open>getCached\<close>, lines 11-43 of client.ts. The outer \<open>try\<close> encloses the call of the
  fetcher, so its \<open>catch\<close> handles a throwing \<open>redis.get\<close> and a throwing fetcher
  alike; the inner \<open>try\<close> encloses \<open>redis.setex\<close> only.
\<close>

definition getCached ::
  "('s, 'e, 'a) redis_client \<Rightarrow> string \<Rightarrow> ('s, 'e, 'a option) js \<Rightarrow> nat option \<Rightarrow>
     's \<Rightarrow> ('e + 'a option) \<times> 'a event list \<times> 's" where
  "getCached redis key fetcher ttl s0 =
     (case redis_get redis key s0 of
        (Inl error, s1) \<Rightarrow>
          (case fetcher s1 of
             (r, s2) \<Rightarrow> (r, [RedisGet key, Console Warn, Fetcher], s2))
      | (Inr (Some cached), s1) \<Rightarrow>
          (Inr (Some cached), [RedisGet key, Console Log], s1)
      | (Inr None, s1) \<Rightarrow>
          (case fetcher s1 of
             (Inl error, s2) \<Rightarrow>
               (case fetcher s2 of
                  (r, s3) \<Rightarrow>
                    (r, [RedisGet key, Console Log, Fetcher, Console Warn, Fetcher], s3))
           | (Inr data, s2) \<Rightarrow>
               (case redis_setex redis key (ttl_or_default ttl) data s2 of
                  (Inl cacheError, s3) \<Rightarrow>
                    (Inr data,
                     [RedisGet key, Console Log, Fetcher,
                      RedisSetex key (ttl_or_default ttl) data, Console Warn], s3)
                | (Inr u, s3) \<Rightarrow>
                    (Inr data,
                     [RedisGet key, Console Log, Fetcher,
                      RedisSetex key (ttl_or_default ttl) data, Console Log], s3))))"

text \<open>
  \<open>getCached\<close>, lines 89-112 of client.ts: the second copy of the helper in the
  file. It has no inner \<open>try\<close>, so a throwing \<open>redis.setex\<close> reaches the \<open>catch\<close>
  as well, which calls the fetcher again and returns what that call gives.
\<close>

definition getCached2 ::
  "('s, 'e, 'a) redis_client \<Rightarrow> string \<Rightarrow> ('s, 'e, 'a option) js \<Rightarrow> nat option \<Rightarrow>
     's \<Rightarrow> ('e + 'a option) \<times> 'a event list \<times> 's" where
  "getCached2 redis key fetcher ttl s0 =
     (case redis_get redis key s0 of
        (Inl error, s1) \<Rightarrow>
          (case fetcher s1 of
             (r, s2) \<Rightarrow> (r, [RedisGet key, Console Error, Fetcher], s2))
      | (Inr (Some cached), s1) \<Rightarrow> (Inr (Some cached), [RedisGet key], s1)
      | (Inr None, s1) \<Rightarrow>
          (case fetcher s1 of
             (Inl error, s2) \<Rightarrow>
               (case fetcher s2 of
                  (r, s3) \<Rightarrow> (r, [RedisGet key, Fetcher, Console Error, Fetcher], s3))
           | (Inr data, s2) \<Rightarrow>
               (case redis_setex redis key (ttl_or_default ttl) data s2 of
                  (Inl error, s3) \<Rightarrow>
                    (case fetcher s3 of
                       (r, s4) \<Rightarrow>
                         (r, [RedisGet key, Fetcher,
                              RedisSetex key (ttl_or_default ttl) data,
                              Console Error, Fetcher], s4))
                | (Inr u, s3) \<Rightarrow>
                    (Inr data,
                     [RedisGet key, Fetcher,
                      RedisSetex key (ttl_or_default ttl) data], s3))))"

text \<open>\<open>invalidateCache\<close> (lines 46-55 and 115-124, identical): never throws.\<close>

definition invalidateCache ::
  "('s, 'e, 'a) redis_client \<Rightarrow> string \<Rightarrow> 's \<Rightarrow> 'a event list \<times> 's" where
  "invalidateCache redis pattern s0 =
     (case redis_keys redis pattern s0 of
        (Inl error, s1) \<Rightarrow> ([RedisKeys pattern, Console Error], s1)
      | (Inr keys, s1) \<Rightarrow>
          (if length keys > 0 then
             (case redis_del redis keys s1 of
                (Inl error, s2) \<Rightarrow> ([RedisKeys pattern, RedisDel keys, Console Error], s2)
              | (Inr n, s2) \<Rightarrow> ([RedisKeys pattern, RedisDel keys], s2))
           else ([RedisKeys pattern], s1)))"

text \<open>\<open>deleteCache\<close> (lines 71-77 and 140-146, identical): never throws.\<close>

definition deleteCache ::
  "('s, 'e, 'a) redis_client \<Rightarrow> string \<Rightarrow> 's \<Rightarrow> 'a event list \<times> 's" where
  "deleteCache redis key s0 =
     (case redis_del redis [key] s0 of
        (Inl error, s1) \<Rightarrow> ([RedisDel [key], Console Error], s1)
      | (Inr n, s1) \<Rightarrow> ([RedisDel [key]], s1))"

text \<open>Projections of what a helper gives back.\<close>

definition outcome :: "'r \<times> 't \<times> 's \<Rightarrow> 'r" where
  "outcome x = fst x"

definition events :: "'r \<times> 't \<times> 's \<Rightarrow> 't" where
  "events x = fst (snd x)"

definition final :: "'r \<times> 't \<times> 's \<Rightarrow> 's" where
  "final x = snd (snd x)"

definition is_setex :: "'a event \<Rightarrow> bool" where
  "is_setex ev = (case ev of RedisSetex k t v \<Rightarrow> True | _ \<Rightarrow> False)"

subsection \<open>A cache and a data store to run the helpers on\<close>

text \<open>
  Redis \<open>KEYS\<close> takes a glob pattern. The patterns of this repository are made of
  literal characters and \<open>*\<close> (any run of characters, also the empty one), which is
  what \<open>glob\<close> matches; the other metacharacters of Redis do not occur in them.
\<close>

fun glob :: "string \<Rightarrow> string \<Rightarrow> bool" where
  "glob [] [] = True"
| "glob [] (c # cs) = False"
| "glob (p # ps) [] = (p = CHR ''*'' \<and> glob ps [])"
| "glob (p # ps) (c # cs) =
     (if p = CHR ''*'' then glob ps (c # cs) \<or> glob (p # ps) cs
      else p = c \<and> glob ps cs)"


text \<open>
  The world the helpers run in: the entries of the cache (a stored value may be
  \<open>null\<close>), whether the cache can be reached, and how often the data store has been
  queried. Expiry is time and is not part of the model: \<open>setex\<close> stores the entry.
\<close>

record 'a env =
  entries :: "(string \<times> 'a option) list"
  cache_up :: bool
  db_calls :: nat

definition memory_redis :: "('a env, string, 'a) redis_client" where
  "memory_redis =
     \<lparr> redis_get = (\<lambda>k w.
         if cache_up w
         then (Inr (case map_of (entries w) k of None \<Rightarrow> None | Some v \<Rightarrow> v), w)
         else (Inl ''fetch failed'', w)),
       redis_setex = (\<lambda>k t v w.
         if cache_up w
         then (Inr (), w\<lparr>entries := (k, v) # filter (\<lambda>e. fst e \<noteq> k) (entries w)\<rparr>)
         else (Inl ''fetch failed'', w)),
       redis_keys = (\<lambda>p w.
         if cache_up w
         then (Inr (filter (glob p) (map fst (entries w))), w)
         else (Inl ''fetch failed'', w)),
       redis_del = (\<lambda>ks w.
         if cache_up w
         then (Inr (length (filter (\<lambda>e. fst e \<in> set ks) (entries w))),
               w\<lparr>entries := filter (\<lambda>e. fst e \<notin> set ks) (entries w)\<rparr>)
         else (Inl ''fetch failed'', w)) \<rparr>"

text \<open>A cache that cannot be reached at all: every call on it throws.\<close>

definition unreachable_redis :: "('s, string, 'a) redis_client" where
  "unreachable_redis =
     \<lparr> redis_get = (\<lambda>k w. (Inl ''fetch failed'', w)),
       redis_setex = (\<lambda>k t v w. (Inl ''fetch failed'', w)),
       redis_keys = (\<lambda>p w. (Inl ''fetch failed'', w)),
       redis_del = (\<lambda>ks w. (Inl ''fetch failed'', w)) \<rparr>"

text \<open>
  A cache that answers reads and refuses writes, as a Redis does that has reached its
  memory limit: \<open>get\<close>, \<open>keys\<close> and \<open>del\<close> work, \<open>setex\<close> throws.
\<close>

definition full_redis :: "('a env, string, 'a) redis_client" where
  "full_redis =
     memory_redis
       \<lparr> redis_setex :=
           (\<lambda>k t v w. (Inl ''OOM command not allowed when used memory > maxmemory'', w)) \<rparr>"

text \<open>
  Four fetchers: a data store that answers, one that answers \<open>null\<close> (the row does not
  exist), one whose first query fails and whose later queries answer, and one whose
  first query answers and whose later queries fail.
\<close>

definition steady_fetcher :: "'a \<Rightarrow> ('a env, string, 'a option) js" where
  "steady_fetcher v w = (Inr (Some v), w\<lparr>db_calls := db_calls w + 1\<rparr>)"

definition null_fetcher :: "('a env, string, 'a option) js" where
  "null_fetcher w = (Inr None, w\<lparr>db_calls := db_calls w + 1\<rparr>)"

definition flaky_fetcher :: "'a \<Rightarrow> ('a env, string, 'a option) js" where
  "flaky_fetcher v w =
     (if db_calls w = 0 then Inl ''Failed to fetch altares'' else Inr (Some v),
      w\<lparr>db_calls := db_calls w + 1\<rparr>)"

definition once_fetcher :: "'a \<Rightarrow> ('a env, string, 'a option) js" where
  "once_fetcher v w =
     (if db_calls w = 0 then Inr (Some v) else Inl ''Failed to fetch altares'',
      w\<lparr>db_calls := db_calls w + 1\<rparr>)"

section \<open>Cache keys and TTL values (src/lib/redis/cache-keys.ts)\<close>

record patterns =
  ALL_ALTARES :: string
  ALL_CONFIGURACIONES :: string
  ALL_PRICING :: string
  ALL_EXTRAS :: string

record cache_keys =
  ALTARES_ALL :: string
  ALTARES_BY_TYPE :: "string \<Rightarrow> string"
  ALTAR_DETAIL :: "string \<Rightarrow> string"
  ALTAR_BY_SLUG :: "string \<Rightarrow> string"
  CONFIGURACIONES_ALL :: string
  CONFIGURACIONES_BY_TYPE :: "string \<Rightarrow> string"
  GROSOR_OPTIONS :: string
  ALTURA_OPTIONS :: string
  ANCHURA_OPTIONS :: string
  REGLAS_PRECIO :: string
  PRECIO_CALCULATION :: "string \<Rightarrow> string"
  ITEMS_EXTRA :: string
  ITEMS_EXTRA_BY_TYPE :: "string \<Rightarrow> string"
  REGLAS_DESCUENTO :: string
  PATTERNS :: patterns

definition CACHE_KEYS :: cache_keys where
  "CACHE_KEYS =
     \<lparr> ALTARES_ALL = ''altares:all'',
       ALTARES_BY_TYPE = (\<lambda>tipo. ''altares:tipo:'' @ tipo),
       ALTAR_DETAIL = (\<lambda>id. ''altar:'' @ id),
       ALTAR_BY_SLUG = (\<lambda>slug. ''altar:slug:'' @ slug),
       CONFIGURACIONES_ALL = ''configuraciones:all'',
       CONFIGURACIONES_BY_TYPE = (\<lambda>tipo. ''configuraciones:tipo:'' @ tipo),
       GROSOR_OPTIONS = ''configuraciones:grosor'',
       ALTURA_OPTIONS = ''configuraciones:altura'',
       ANCHURA_OPTIONS = ''configuraciones:anchura'',
       REGLAS_PRECIO = ''reglas_precio:all'',
       PRECIO_CALCULATION = (\<lambda>hash. ''precio:calc:'' @ hash),
       ITEMS_EXTRA = ''items_extra:all'',
       ITEMS_EXTRA_BY_TYPE = (\<lambda>tipo. ''items_extra:tipo:'' @ tipo),
       REGLAS_DESCUENTO = ''reglas_descuento:all'',
       PATTERNS =
         \<lparr> ALL_ALTARES = ''altares:*'',
           ALL_CONFIGURACIONES = ''configuraciones:*'',
           ALL_PRICING = ''precio:*'',
           ALL_EXTRAS = ''items_extra:*'' \<rparr> \<rparr>"

text \<open>Time-to-live values, in seconds.\<close>

record cache_ttl =
  LONG :: nat
  MEDIUM :: nat
  SHORT :: nat
  VERY_SHORT :: nat
  CATALOG :: nat
  CONFIG :: nat
  PRICING :: nat
  CALCULATION :: nat
  EXTRAS :: nat
  DISCOUNTS :: nat

definition CACHE_TTL :: cache_ttl where
  "CACHE_TTL =
     \<lparr> LONG = 3600, MEDIUM = 1800, SHORT = 300, VERY_SHORT = 60, CATALOG = 3600,
       CONFIG = 3600, PRICING = 1800, CALCULATION = 600, EXTRAS = 3600,
       DISCOUNTS = 3600 \<rparr>"

subsection \<open>Invalidation on an admin mutation\<close>

text \<open>
  Modelled from the spec: the entities whose admin mutation invalidates the cache
  (section 4.6, Invalidate). The admin mutation handlers are not among the source
  files, and nothing in them calls \<open>invalidateCache\<close>.
\<close>

datatype mutated_entity = PricingRule | DiscountTier | ExtraItem

text \<open>
  Modelled from the spec: the "pricing rules namespace" that the missing Invalidate
  step deletes, as a pattern over the prefix of the key \<open>reglas_precio:all\<close> of
  \<open>CACHE_KEYS\<close>.
\<close>

definition pricing_rules_namespace :: string where
  "pricing_rules_namespace = ''reglas_precio:*''"

text \<open>
  Modelled from the spec: the "discount namespace" that the missing Invalidate step
  deletes, as a pattern over the prefix of the key \<open>reglas_descuento:all\<close> of
  \<open>CACHE_KEYS\<close>.
\<close>

definition discount_namespace :: string where
  "discount_namespace = ''reglas_descuento:*''"

text \<open>
  Modelled from the spec: the "entire quote-result namespace" that the missing
  Invalidate step deletes: the pattern \<open>ALL_PRICING\<close> of the source, which covers
  the keys \<open>precio:calc:<hash>\<close>.
\<close>

definition quote_result_namespace :: string where
  "quote_result_namespace = ALL_PRICING (PATTERNS CACHE_KEYS)"

text \<open>
  Modelled from the spec: the missing Invalidate step of the Cache-Aside Facade: on any
  admin mutation of a pricing rule, a discount tier or an extra item it issues the
  prefix-delete of the repository, \<open>invalidateCache\<close>, for each of the three
  namespaces, "since any rule change can change any quote".
\<close>

definition invalidateOnMutation ::
  "('s, 'e, 'a) redis_client \<Rightarrow> mutated_entity \<Rightarrow> 's \<Rightarrow> 'a event list \<times> 's" where
  "invalidateOnMutation redis entity s0 =
     (case invalidateCache redis pricing_rules_namespace s0 of
        (ev1, s1) \<Rightarrow>
          (case invalidateCache redis discount_namespace s1 of
             (ev2, s2) \<Rightarrow>
               (case invalidateCache redis quote_result_namespace s2 of
                  (ev3, s3) \<Rightarrow> (ev1 @ ev2 @ ev3, s3))))"

subsection \<open>generatePriceCalcHash\<close>

text \<open>
  \<open>Array.prototype.sort\<close> with a comparator is stable: elements that the comparator
  calls equal (result \<open>0\<close>) keep their order, and \<open>a\<close> goes after \<open>b\<close> only when
  the comparator gives a positive number. For a consistent comparator that fixes the
  result, which is the one of a stable insertion sort. (The source sorts
  \<open>params.extras\<close> in place; only the returned string is modelled.)
\<close>

fun insert_by :: "('a \<Rightarrow> 'a \<Rightarrow> int) \<Rightarrow> 'a \<Rightarrow> 'a list \<Rightarrow> 'a list" where
  "insert_by cmp x [] = [x]"
| "insert_by cmp x (y # ys) = (if cmp x y \<le> 0 then x # y # ys else y # insert_by cmp x ys)"

definition js_sort :: "('a \<Rightarrow> 'a \<Rightarrow> int) \<Rightarrow> 'a list \<Rightarrow> 'a list" where
  "js_sort cmp xs = foldr (insert_by cmp) xs []"

text \<open>\<open>Array.prototype.join\<close>.\<close>

fun join :: "string \<Rightarrow> string list \<Rightarrow> string" where
  "join sep [] = []"
| "join sep [x] = x"
| "join sep (x # y # ys) = x @ sep @ join sep (y # ys)"

text \<open>
  A quantity inside a template literal is printed by the JavaScript engine (decimal
  digits for an integer below \<open>10\<^sup>2\<^sup>1\<close> in magnitude, other forms for larger
  numbers, fractions and \<open>NaN\<close>), so the printing is a parameter of the model, and so
  is the type of \<open>cantidad\<close>. \<open>number_to_string\<close> is the printing of an integer in
  decimal digits; the examples below use it at the quantities 1 and 2.
\<close>

definition digit_char :: "nat \<Rightarrow> char" where
  "digit_char d = ''0123456789'' ! d"

fun digits :: "nat \<Rightarrow> string" where
  "digits n =
     (if n < 10 then [digit_char n] else digits (n div 10) @ [digit_char (n mod 10)])"

declare digits.simps [simp del]

definition number_to_string :: "int \<Rightarrow> string" where
  "number_to_string n = (if n < 0 then ''-'' @ digits (nat (- n)) else digits (nat n))"

record 'n extra =
  itemId :: string
  cantidad :: 'n

record 'n params =
  grosorId :: string
  alturaId :: string
  anchuraId :: string
  pintado :: bool
  extras :: "'n extra list option"

text \<open>
  \<open>String.prototype.localeCompare\<close> belongs to the JavaScript engine and depends on
  its locale data, so it is a parameter of the model as well. An absent \<open>extras\<close>
  (\<open>undefined\<close>) is \<open>None\<close>; an array, also the empty one, is truthy.
\<close>

definition generatePriceCalcHash ::
  "(string \<Rightarrow> string \<Rightarrow> int) \<Rightarrow> ('n \<Rightarrow> string) \<Rightarrow> 'n params \<Rightarrow> string" where
  "generatePriceCalcHash localeCompare toString p =
     (let extrasStr =
        (case extras p of
           Some es \<Rightarrow>
             join '',''
               (map (\<lambda>e. itemId e @ '':'' @ toString (cantidad e))
                  (js_sort (\<lambda>a b. localeCompare (itemId a) (itemId b)) es))
         | None \<Rightarrow> [])
      in grosorId p @ ''-'' @ alturaId p @ ''-'' @ anchuraId p @ ''-''
         @ (if pintado p then ''1'' else ''0'') @ ''-'' @ extrasStr)"

text \<open>
  A comparator to run the function with. It is not \<open>localeCompare\<close>: it compares by
  code unit (so it puts \<open>B\<close> before \<open>a\<close>, and never calls two different strings
  equal, both unlike \<open>localeCompare\<close>). The examples below use it on the identifiers
  \<open>a\<close> and \<open>b\<close> only, where \<open>localeCompare\<close> has the same sign: zero for
  \<open>a\<close> against \<open>a\<close>, negative for \<open>a\<close> against \<open>b\<close>.
\<close>

fun code_unit_compare :: "string \<Rightarrow> string \<Rightarrow> int" where
  "code_unit_compare [] [] = 0"
| "code_unit_compare [] (d # ds) = - 1"
| "code_unit_compare (c # cs) [] = 1"
| "code_unit_compare (c # cs) (d # ds) =
     (if c = d then code_unit_compare cs ds
      else if (of_char c :: nat) < of_char d then - 1 else 1)"

text \<open>
  What makes a comparator consistent on a set of strings, in the sense that
  \<open>Array.prototype.sort\<close> asks for: the signs of \<open>cmp a b\<close> and \<open>cmp b a\<close> are
  opposite, and "not after" is transitive.
\<close>

definition consistent_on :: "('a \<Rightarrow> 'a \<Rightarrow> int) \<Rightarrow> 'a set \<Rightarrow> bool" where
  "consistent_on cmp S =
     ((\<forall>a\<in>S. \<forall>b\<in>S. (cmp a b < 0) = (0 < cmp b a))
      \<and> (\<forall>a\<in>S. \<forall>b\<in>S. \<forall>c\<in>S. cmp a b \<le> 0 \<and> cmp b c \<le> 0 \<longrightarrow> cmp a c \<le> 0))"

section \<open>The orders table (src/supabase/migrations/20250121000000_initial_schema.sql)\<close>

text \<open>
  The pricing columns of \<open>pedidos\<close>. A \<open>DECIMAL(10, 2)\<close> holds an exact number of
  hundredths, so an amount is the integer number of its hundredths (centavos), of at
  most ten digits. A column value is \<open>None\<close> when it is \<open>NULL\<close>. \<open>subtotal\<close> and
  \<open>total\<close> are declared \<open>NOT NULL\<close>; \<open>descuento\<close> is declared \<open>DEFAULT 0\<close>
  only, so it takes \<open>0\<close> when an insert leaves the column out and \<open>NULL\<close> when an
  insert or update gives \<open>NULL\<close>. The rows of the model hold numbers or \<open>NULL\<close>; the
  value \<open>NaN\<close>, which a \<open>numeric\<close> column admits as well, is outside it.
\<close>

record pedidos =
  subtotal :: "int option"
  descuento :: "int option"
  total :: "int option"

text \<open>
  SQL comparisons and arithmetic give \<open>NULL\<close> when an operand is \<open>NULL\<close>; \<open>AND\<close>
  is false when an operand is false, else \<open>NULL\<close> when an operand is \<open>NULL\<close>. A
  truth value is a \<open>bool option\<close>, \<open>None\<close> for unknown.
\<close>

definition sql_ge :: "int option \<Rightarrow> int option \<Rightarrow> bool option" where
  "sql_ge a b = (case (a, b) of (Some x, Some y) \<Rightarrow> Some (x \<ge> y) | _ \<Rightarrow> None)"

definition sql_eq :: "int option \<Rightarrow> int option \<Rightarrow> bool option" where
  "sql_eq a b = (case (a, b) of (Some x, Some y) \<Rightarrow> Some (x = y) | _ \<Rightarrow> None)"

definition sql_minus :: "int option \<Rightarrow> int option \<Rightarrow> int option" where
  "sql_minus a b = (case (a, b) of (Some x, Some y) \<Rightarrow> Some (x - y) | _ \<Rightarrow> None)"

definition sql_and :: "bool option \<Rightarrow> bool option \<Rightarrow> bool option" where
  "sql_and a b =
     (if a = Some False \<or> b = Some False then Some False
      else if a = None \<or> b = None then None
      else Some True)"

text \<open>A \<open>CHECK\<close> constraint rejects a row only when its expression is false.\<close>

definition check_holds :: "bool option \<Rightarrow> bool" where
  "check_holds c = (c \<noteq> Some False)"

definition not_null :: "'a option \<Rightarrow> bool" where
  "not_null v = (v \<noteq> None)"

definition decimal_10_2 :: "int option \<Rightarrow> bool" where
  "decimal_10_2 v = (case v of None \<Rightarrow> True | Some c \<Rightarrow> \<bar>c\<bar> < 10 ^ 10)"

definition check_positive_amounts :: "pedidos \<Rightarrow> bool option" where
  "check_positive_amounts r =
     sql_and (sql_and (sql_ge (subtotal r) (Some 0)) (sql_ge (total r) (Some 0)))
       (sql_ge (descuento r) (Some 0))"

definition check_total_calculation :: "pedidos \<Rightarrow> bool option" where
  "check_total_calculation r = sql_eq (total r) (sql_minus (subtotal r) (descuento r))"

text \<open>The rows that the table accepts, as far as the pricing columns decide it.\<close>

definition pedidos_accepts :: "pedidos \<Rightarrow> bool" where
  "pedidos_accepts r =
     (decimal_10_2 (subtotal r) \<and> decimal_10_2 (descuento r) \<and> decimal_10_2 (total r)
      \<and> not_null (subtotal r) \<and> not_null (total r)
      \<and> check_holds (check_positive_amounts r)
      \<and> check_holds (check_total_calculation r))"

section \<open>Price resolution, discounts and quotes\<close>

text \<open>
  The Price Resolver, the Discount Engine and the Quote Calculator are not among the
  source files, which hold only the tables and the seed rows they work on. Their
  data and operations follow sections 3 and 4.3 to 4.5 of the specification. Decimals
  are integers of hundredths, as the \<open>DECIMAL(10, 2)\<close> and \<open>DECIMAL(5, 2)\<close>
  columns hold them: an amount in centavos, a length in hundredths of a centimetre, a
  percentage in hundredths of a percent. Identifiers are strings, ordered as lists of
  characters.
\<close>

text \<open>
  Modelled from the spec: the record \<open>PricingRule\<close> of section 3 (the resolver that
  reads it is missing), with the identifier that the tie-break of section 4.3 compares.
\<close>

record pricing_rule =
  ruleId :: string
  thicknessRef :: string
  heightMin :: int
  heightMax :: int
  widthMin :: int
  widthMax :: int
  basePrice :: int
  paintedPrice :: int
  ruleActive :: bool

text \<open>
  Modelled from the spec: the record \<open>DiscountTier\<close> of section 3 (the discount engine
  that reads it is missing).
\<close>

record discount_tier =
  minQuantity :: int
  percentage :: int
  tierActive :: bool

text \<open>
  Modelled from the spec: the record \<open>ExtraItem\<close> of section 3 (the quote calculator
  that reads it is missing).
\<close>

record extra_item =
  price :: int
  category :: string
  extraAvailable :: bool

text \<open>
  Modelled from the spec: the record \<open>ConfigurationOption\<close> of section 3, as far as
  the quote calculator, which is missing, reads it, and the three options that make a
  configuration.
\<close>

record configuration_option =
  optionId :: string
  optionValue :: int
  available :: bool

record configuration =
  thickness :: configuration_option
  height :: configuration_option
  width :: configuration_option

text \<open>
  Modelled from the spec: the record \<open>Quote\<close> of section 3, the result of the missing
  quote calculator.
\<close>

record quote =
  unitPrice :: int
  extrasTotal :: int
  lineSubtotal :: int
  discountAmount :: int
  quoteTotal :: int
  matchedRuleId :: "string option"

text \<open>
  Modelled from the spec: the data errors of section 7, which the missing resolver and
  quote calculator raise.
\<close>

datatype quote_error =
    NoRuleMatchedError string int int
  | InvalidConfigurationError

text \<open>
  Modelled from the spec: the filter of the missing \<open>resolve\<close> (section 4.3): an active
  rule of the requested thickness whose inclusive bands contain the height and the
  width.
\<close>

definition matches :: "pricing_rule \<Rightarrow> string \<Rightarrow> int \<Rightarrow> int \<Rightarrow> bool" where
  "matches r th h w =
     (ruleActive r \<and> thicknessRef r = th
      \<and> heightMin r \<le> h \<and> h \<le> heightMax r \<and> widthMin r \<le> w \<and> w \<le> widthMax r)"

text \<open>
  Modelled from the spec: the band area that the missing \<open>resolve\<close> compares,
  \<open>(heightMax - heightMin) \<times> (widthMax - widthMin)\<close>.
\<close>

definition area :: "pricing_rule \<Rightarrow> int" where
  "area r = (heightMax r - heightMin r) * (widthMax r - widthMin r)"

text \<open>
  Modelled from the spec: the tie-break of the missing \<open>resolve\<close>: the smaller area,
  and for equal areas the lexicographically smaller identifier.
\<close>

definition narrower :: "pricing_rule \<Rightarrow> pricing_rule \<Rightarrow> bool" where
  "narrower a b = (area a < area b \<or> (area a = area b \<and> ruleId a < ruleId b))"

text \<open>
  Modelled from the spec: the selection among several matching rules of the missing
  \<open>resolve\<close>, one pass that keeps the narrower rule.
\<close>

fun narrowest :: "pricing_rule \<Rightarrow> pricing_rule list \<Rightarrow> pricing_rule" where
  "narrowest best [] = best"
| "narrowest best (r # rs) = narrowest (if narrower r best then r else best) rs"

text \<open>
  Modelled from the spec: \<open>resolve\<close> (section 4.3), which is missing. No matching rule
  is \<open>NoRuleMatchedError\<close>; one is returned; among several the narrowest band wins.
  The rule set is what the rule repository has read.
\<close>

definition resolve ::
  "pricing_rule list \<Rightarrow> string \<Rightarrow> int \<Rightarrow> int \<Rightarrow> quote_error + pricing_rule" where
  "resolve rules th h w =
     (case filter (\<lambda>r. matches r th h w) rules of
        [] \<Rightarrow> Inl (NoRuleMatchedError th h w)
      | r # rs \<Rightarrow> Inr (narrowest r rs))"

text \<open>
  Modelled from the spec: the tiers that the missing \<open>applyDiscount\<close> (section 4.4)
  considers: active, with \<open>minQuantity \<le> itemCount\<close>.
\<close>

definition qualifies :: "discount_tier \<Rightarrow> int \<Rightarrow> bool" where
  "qualifies t itemCount = (tierActive t \<and> minQuantity t \<le> itemCount)"

text \<open>
  Modelled from the spec: the choice of the missing \<open>applyDiscount\<close>, one pass that
  keeps the qualifying tier with the largest \<open>minQuantity\<close>.
\<close>

fun best_tier :: "discount_tier option \<Rightarrow> discount_tier list \<Rightarrow> int \<Rightarrow> discount_tier option" where
  "best_tier best [] itemCount = best"
| "best_tier best (t # ts) itemCount =
     best_tier
       (if qualifies t itemCount
           \<and> (case best of None \<Rightarrow> True | Some b \<Rightarrow> minQuantity b < minQuantity t)
        then Some t else best)
       ts itemCount"

text \<open>
  Modelled from the spec: the rounding "to currency precision" of the missing
  \<open>applyDiscount\<close>: the quotient rounded to the nearest integer, a half going up.
\<close>

definition round_div :: "int \<Rightarrow> int \<Rightarrow> int" where
  "round_div num den = (2 * num + den) div (2 * den)"

text \<open>
  Modelled from the spec: \<open>applyDiscount\<close> (section 4.4), which is missing. The amount
  is \<open>subtotal \<times> percentage / 100\<close> rounded to the centavo; without a tier the amount
  is \<open>0\<close> and the tier is \<open>null\<close>. The tiers are what the rule repository has read.
\<close>

definition applyDiscount :: "discount_tier list \<Rightarrow> int \<Rightarrow> int \<Rightarrow> discount_tier option \<times> int" where
  "applyDiscount tiers itemCount sub =
     (case best_tier None tiers itemCount of
        None \<Rightarrow> (None, 0)
      | Some t \<Rightarrow> (Some t, round_div (sub * percentage t) 10000))"

text \<open>
  Modelled from the spec: \<open>computeQuote\<close> (section 4.5), which is missing, with the rule
  set, the tiers and the order-level item count that the caller supplies.
\<close>

definition computeQuote ::
  "pricing_rule list \<Rightarrow> discount_tier list \<Rightarrow> configuration \<Rightarrow> bool \<Rightarrow> int \<Rightarrow>
     extra_item list \<Rightarrow> int \<Rightarrow> quote_error + quote" where
  "computeQuote rules tiers config paint quantity extraItems orderItemCount =
     (if \<not> (quantity \<ge> 1 \<and> available (thickness config) \<and> available (height config)
             \<and> available (width config))
      then Inl InvalidConfigurationError
      else
        (case resolve rules (optionId (thickness config)) (optionValue (height config))
                (optionValue (width config)) of
           Inl e \<Rightarrow> Inl e
         | Inr rule \<Rightarrow>
             (let unit = (if paint then paintedPrice rule else basePrice rule);
                  ext = sum_list (map price extraItems);
                  line = (unit + ext) * quantity;
                  disc = snd (applyDiscount tiers orderItemCount line)
              in Inr \<lparr> unitPrice = unit, extrasTotal = ext, lineSubtotal = line,
                       discountAmount = disc, quoteTotal = line - disc,
                       matchedRuleId = Some (ruleId rule) \<rparr>)))"

text \<open>
  The seed rows of \<open>reglas_descuento\<close> and the rules for the 3 mm thickness of
  \<open>reglas_precio\<close> (src/supabase/migrations/20250121000002_seed_data.sql). The data
  base generates the identifiers; the ones here stand for them.
\<close>

definition seed_tiers :: "discount_tier list" where
  "seed_tiers =
     [\<lparr> minQuantity = 5, percentage = 1000, tierActive = True \<rparr>,
      \<lparr> minQuantity = 10, percentage = 1500, tierActive = True \<rparr>]"

definition seed_rules :: "pricing_rule list" where
  "seed_rules =
     [\<lparr> ruleId = ''r1'', thicknessRef = ''grosor_3mm'', heightMin = 3000, heightMax = 5000,
        widthMin = 2000, widthMax = 3500, basePrice = 25000, paintedPrice = 35000,
        ruleActive = True \<rparr>,
      \<lparr> ruleId = ''r2'', thicknessRef = ''grosor_3mm'', heightMin = 3000, heightMax = 5000,
        widthMin = 4000, widthMax = 5000, basePrice = 30000, paintedPrice = 42000,
        ruleActive = True \<rparr>,
      \<lparr> ruleId = ''r3'', thicknessRef = ''grosor_3mm'', heightMin = 6000, heightMax = 8000,
        widthMin = 2000, widthMax = 5000, basePrice = 40000, paintedPrice = 56000,
        ruleActive = True \<rparr>]"

text \<open>
  Two rules that overlap, which the table allows: a wide band, stored first, and a
  narrow band inside it.
\<close>

definition overlapping_rules :: "pricing_rule list" where
  "overlapping_rules =
     [\<lparr> ruleId = ''wide'', thicknessRef = ''grosor_3mm'', heightMin = 3000, heightMax = 8000,
        widthMin = 2000, widthMax = 5000, basePrice = 40000, paintedPrice = 56000,
        ruleActive = True \<rparr>,
      \<lparr> ruleId = ''narrow'', thicknessRef = ''grosor_3mm'', heightMin = 3000,
        heightMax = 5000, widthMin = 2000, widthMax = 3500, basePrice = 25000,
        paintedPrice = 35000, ruleActive = True \<rparr>]"

text \<open>Two rules with the same band, the one with the larger identifier stored first.\<close>

definition tied_rules :: "pricing_rule list" where
  "tied_rules =
     [\<lparr> ruleId = ''a2'', thicknessRef = ''grosor_3mm'', heightMin = 3000, heightMax = 5000,
        widthMin = 2000, widthMax = 3500, basePrice = 26000, paintedPrice = 36000,
        ruleActive = True \<rparr>,
      \<lparr> ruleId = ''a1'', thicknessRef = ''grosor_3mm'', heightMin = 3000, heightMax = 5000,
        widthMin = 2000, widthMax = 3500, basePrice = 25000, paintedPrice = 35000,
        ruleActive = True \<rparr>]"

section \<open>The cached catalogue reader (features/altar-catalog/api.ts, the version that caches)\<close>

text \<open>
  \<open>getAltares\<close> wraps its query of the data store in \<open>getCached\<close>, under the key
  \<open>ALTARES_ALL\<close> and with the TTL \<open>CATALOG\<close>. The query and the validation of its
  rows are the fetcher, a parameter here.
\<close>

definition getAltares ::
  "('s, 'e, 'a) redis_client \<Rightarrow> ('s, 'e, 'a option) js \<Rightarrow>
     's \<Rightarrow> ('e + 'a option) \<times> 'a event list \<times> 's" where
  "getAltares redis query =
     getCached redis (ALTARES_ALL CACHE_KEYS) query (Some (CATALOG CACHE_TTL))"

section \<open>Properties of the cache-aside helper\<close>

lemmas projections = outcome_def events_def final_def

text \<open>
  When the lookup throws, both copies of \<open>getCached\<close> give back exactly what the
  fetcher gives, called once on the world that the failed lookup left; the write to
  the cache is not reached.
\<close>

lemma getCached_lookup_throws:
  assumes "redis_get redis key s = (Inl e, s1)"
  shows "outcome (getCached redis key fetcher ttl s) = fst (fetcher s1)
       \<and> final (getCached redis key fetcher ttl s) = snd (fetcher s1)
       \<and> count_list (events (getCached redis key fetcher ttl s)) Fetcher = 1
       \<and> outcome (getCached2 redis key fetcher ttl s) = fst (fetcher s1)
       \<and> final (getCached2 redis key fetcher ttl s) = snd (fetcher s1)
       \<and> count_list (events (getCached2 redis key fetcher ttl s)) Fetcher = 1"
  using assms
  by (simp add: getCached_def getCached2_def projections split: prod.splits)

text \<open>
  So with a cache that cannot be reached both copies answer from the data store
  (scenario 6 of the specification).
\<close>

lemma getCached_unreachable_cache:
  "outcome (getCached unreachable_redis ''altares:all'' (steady_fetcher (250::nat))
      (Some 3600) \<lparr>entries = [], cache_up = False, db_calls = 0\<rparr>) = Inr (Some 250)
   \<and> outcome (getCached2 unreachable_redis ''altares:all'' (steady_fetcher (250::nat))
      (Some 3600) \<lparr>entries = [], cache_up = False, db_calls = 0\<rparr>) = Inr (Some 250)"
proof -
  have g: "redis_get (unreachable_redis :: (nat env, string, nat) redis_client)
      ''altares:all'' \<lparr>entries = [], cache_up = False, db_calls = 0\<rparr>
    = (Inl ''fetch failed'', \<lparr>entries = [], cache_up = False, db_calls = 0\<rparr>)"
    by (simp add: unreachable_redis_def)
  from getCached_lookup_throws [OF g, of "steady_fetcher 250" "Some 3600"]
  show ?thesis
    by (simp add: steady_fetcher_def)
qed

text \<open>
  The first copy absorbs every failure of the cache: whatever \<open>redis.get\<close> and
  \<open>redis.setex\<close> do, its result is the cached value on a hit and else what the
  fetcher gives, the fetched value also when the write throws.
\<close>

lemma getCached_absorbs_cache_failures:
  "outcome (getCached redis key fetcher ttl s) =
     (case redis_get redis key s of
        (Inl e, s1) \<Rightarrow> fst (fetcher s1)
      | (Inr (Some cached), s1) \<Rightarrow> Inr (Some cached)
      | (Inr None, s1) \<Rightarrow>
          (case fetcher s1 of
             (Inl e, s2) \<Rightarrow> fst (fetcher s2)
           | (Inr data, s2) \<Rightarrow> Inr data))"
  by (simp add: getCached_def projections split: prod.splits sum.splits option.splits)

text \<open>
  In both copies an exception that reaches the caller is one that a call of the
  fetcher threw, never the exception of the cache itself.
\<close>

lemma getCached_failure_is_the_fetchers:
  "(outcome (getCached redis key fetcher ttl s) = Inl e \<longrightarrow> (\<exists>s'. fst (fetcher s') = Inl e))
   \<and> (outcome (getCached2 redis key fetcher ttl s) = Inl e \<longrightarrow> (\<exists>s'. fst (fetcher s') = Inl e))"
  by (auto simp add: getCached_def getCached2_def projections
      split: prod.splits sum.splits option.splits) (metis fst_conv)+

text \<open>
  C1 (fail-open cache). The claim does not hold of the second copy of the helper
  (lines 89-112). There \<open>redis.setex\<close> is not in a \<open>try\<close> of its own, as it is in
  the first copy ("Try to cache the result, but don't fail if Redis is down"): when
  the write throws, the fetched data is dropped and the fetcher is called again, and
  what that second call gives is the result. With a cache that answers reads and
  refuses writes, and a data store that answers the first query and fails the second,
  the second copy fails the request although the data had been fetched; the first
  copy returns the data.
\<close>

theorem getCached2_write_failure_fails_request:
  "outcome (getCached2 full_redis ''altares:all'' (once_fetcher (7::nat)) None
      \<lparr>entries = [], cache_up = True, db_calls = 0\<rparr>) = Inl ''Failed to fetch altares''
   \<and> db_calls (final (getCached2 full_redis ''altares:all'' (once_fetcher (7::nat)) None
      \<lparr>entries = [], cache_up = True, db_calls = 0\<rparr>)) = 2
   \<and> outcome (getCached full_redis ''altares:all'' (once_fetcher (7::nat)) None
      \<lparr>entries = [], cache_up = True, db_calls = 0\<rparr>) = Inr (Some 7)
   \<and> db_calls (final (getCached full_redis ''altares:all'' (once_fetcher (7::nat)) None
      \<lparr>entries = [], cache_up = True, db_calls = 0\<rparr>)) = 1"
  by (simp add: getCached_def getCached2_def full_redis_def memory_redis_def once_fetcher_def
      projections)

text \<open>
  C6 (no internal retry of a failed fetch). The claim does not hold of the code: on a
  cache miss the fetcher runs inside the \<open>try\<close> whose \<open>catch\<close> is written for a
  failing cache, so a fetcher that throws is called a second time. With a reachable,
  empty cache and a data store whose first query fails, both copies of the helper
  call the fetcher twice and hand the caller the answer of the second call; the
  failure of the first is not surfaced.
\<close>

theorem getCached_retries_failed_fetch:
  "count_list (events (getCached memory_redis ''altares:all'' (flaky_fetcher (7::nat)) None
      \<lparr>entries = [], cache_up = True, db_calls = 0\<rparr>)) Fetcher = 2
   \<and> outcome (getCached memory_redis ''altares:all'' (flaky_fetcher (7::nat)) None
      \<lparr>entries = [], cache_up = True, db_calls = 0\<rparr>) = Inr (Some 7)
   \<and> count_list (events (getCached2 memory_redis ''altares:all'' (flaky_fetcher (7::nat)) None
      \<lparr>entries = [], cache_up = True, db_calls = 0\<rparr>)) Fetcher = 2
   \<and> outcome (getCached2 memory_redis ''altares:all'' (flaky_fetcher (7::nat)) None
      \<lparr>entries = [], cache_up = True, db_calls = 0\<rparr>) = Inr (Some 7)"
  by (simp add: getCached_def getCached2_def memory_redis_def flaky_fetcher_def projections)

text \<open>
  What does hold: the fetcher is never called more than twice, and a second call
  happens only after a first call threw or, in the second copy, after the write to the
  cache threw.
\<close>

lemma getCached_fetches_at_most_twice:
  "count_list (events (getCached redis key fetcher ttl s)) Fetcher \<le> 2
   \<and> count_list (events (getCached2 redis key fetcher ttl s)) Fetcher \<le> 2"
  by (simp add: getCached_def getCached2_def projections
      split: prod.splits sum.splits option.splits)

text \<open>
  C9 (a cache hit is terminal). When \<open>redis.get\<close> succeeds with a value that is not
  \<open>null\<close>, both copies of \<open>getCached\<close> return that value unchanged, do not call the
  fetcher, do not write to the cache, and leave the world as the lookup left it.
\<close>

theorem getCached_hit_terminal:
  assumes "redis_get redis key s = (Inr (Some v), s1)"
  shows "outcome (getCached redis key fetcher ttl s) = Inr (Some v)
       \<and> Fetcher \<notin> set (events (getCached redis key fetcher ttl s))
       \<and> \<not> list_ex is_setex (events (getCached redis key fetcher ttl s))
       \<and> final (getCached redis key fetcher ttl s) = s1
       \<and> outcome (getCached2 redis key fetcher ttl s) = Inr (Some v)
       \<and> Fetcher \<notin> set (events (getCached2 redis key fetcher ttl s))
       \<and> \<not> list_ex is_setex (events (getCached2 redis key fetcher ttl s))
       \<and> final (getCached2 redis key fetcher ttl s) = s1"
  using assms by (simp add: getCached_def getCached2_def projections is_setex_def)

theorem getCached_hit_terminal_witness:
  "outcome (getCached memory_redis ''altares:all'' (steady_fetcher (9::nat)) None
      \<lparr>entries = [(''altares:all'', Some 5)], cache_up = True, db_calls = 0\<rparr>) = Inr (Some 5)
   \<and> final (getCached2 memory_redis ''altares:all'' (steady_fetcher (9::nat)) None
      \<lparr>entries = [(''altares:all'', Some 5)], cache_up = True, db_calls = 0\<rparr>)
     = \<lparr>entries = [(''altares:all'', Some 5)], cache_up = True, db_calls = 0\<rparr>"
proof -
  have h: "redis_get memory_redis ''altares:all''
      \<lparr>entries = [(''altares:all'', Some (5::nat))], cache_up = True, db_calls = 0\<rparr>
    = (Inr (Some 5), \<lparr>entries = [(''altares:all'', Some 5)], cache_up = True, db_calls = 0\<rparr>)"
    by (simp add: memory_redis_def)
  show ?thesis
    using getCached_hit_terminal [OF h, of "steady_fetcher 9" None]
    by simp
qed

text \<open>
  C10 (a \<open>null\<close> is a miss). When the lookup gives \<open>null\<close>, be it for an absent key or
  for a stored \<open>null\<close>, both copies of \<open>getCached\<close> call the fetcher on the world
  that the lookup left, and what they return is what the fetcher gives (in the first
  copy the fetched value, or what the second call gives when the first threw; in the
  second copy the same, and what a further call gives when the write threw), not the
  \<open>null\<close> of the cache. And whenever \<open>getCached\<close> answers \<open>null\<close>, that
  \<open>null\<close> is the answer of a call of the fetcher: a \<open>null\<close> is never served from
  the cache.
\<close>

theorem getCached_null_is_miss:
  "(redis_get redis key s = (Inr None, s1) \<longrightarrow>
      outcome (getCached redis key fetcher ttl s)
        = (case fetcher s1 of
             (Inl e, s2) \<Rightarrow> fst (fetcher s2)
           | (Inr data, s2) \<Rightarrow> Inr data)
      \<and> final (getCached redis key fetcher ttl s)
        = (case fetcher s1 of
             (Inl e, s2) \<Rightarrow> snd (fetcher s2)
           | (Inr data, s2) \<Rightarrow> snd (redis_setex redis key (ttl_or_default ttl) data s2))
      \<and> outcome (getCached2 redis key fetcher ttl s)
        = (case fetcher s1 of
             (Inl e, s2) \<Rightarrow> fst (fetcher s2)
           | (Inr data, s2) \<Rightarrow>
               (case redis_setex redis key (ttl_or_default ttl) data s2 of
                  (Inl e, s3) \<Rightarrow> fst (fetcher s3)
                | (Inr u, s3) \<Rightarrow> Inr data))
      \<and> final (getCached2 redis key fetcher ttl s)
        = (case fetcher s1 of
             (Inl e, s2) \<Rightarrow> snd (fetcher s2)
           | (Inr data, s2) \<Rightarrow>
               (case redis_setex redis key (ttl_or_default ttl) data s2 of
                  (Inl e, s3) \<Rightarrow> snd (fetcher s3)
                | (Inr u, s3) \<Rightarrow> s3))
      \<and> Fetcher \<in> set (events (getCached redis key fetcher ttl s))
      \<and> Fetcher \<in> set (events (getCached2 redis key fetcher ttl s)))
   \<and> (outcome (getCached redis key fetcher ttl s) = Inr None \<longrightarrow>
        (\<exists>s'. fst (fetcher s') = Inr None))
   \<and> (outcome (getCached2 redis key fetcher ttl s) = Inr None \<longrightarrow>
        (\<exists>s'. fst (fetcher s') = Inr None))"
proof (intro conjI impI)
  assume g: "redis_get redis key s = (Inr None, s1)"
  show "outcome (getCached redis key fetcher ttl s)
        = (case fetcher s1 of
             (Inl e, s2) \<Rightarrow> fst (fetcher s2)
           | (Inr data, s2) \<Rightarrow> Inr data)"
    by (simp add: getCached_def projections g split: prod.splits sum.splits)
  show "final (getCached redis key fetcher ttl s)
        = (case fetcher s1 of
             (Inl e, s2) \<Rightarrow> snd (fetcher s2)
           | (Inr data, s2) \<Rightarrow> snd (redis_setex redis key (ttl_or_default ttl) data s2))"
    by (simp add: getCached_def projections g split: prod.splits sum.splits)
  show "outcome (getCached2 redis key fetcher ttl s)
        = (case fetcher s1 of
             (Inl e, s2) \<Rightarrow> fst (fetcher s2)
           | (Inr data, s2) \<Rightarrow>
               (case redis_setex redis key (ttl_or_default ttl) data s2 of
                  (Inl e, s3) \<Rightarrow> fst (fetcher s3)
                | (Inr u, s3) \<Rightarrow> Inr data))"
    by (simp add: getCached2_def projections g split: prod.splits sum.splits)
  show "final (getCached2 redis key fetcher ttl s)
        = (case fetcher s1 of
             (Inl e, s2) \<Rightarrow> snd (fetcher s2)
           | (Inr data, s2) \<Rightarrow>
               (case redis_setex redis key (ttl_or_default ttl) data s2 of
                  (Inl e, s3) \<Rightarrow> snd (fetcher s3)
                | (Inr u, s3) \<Rightarrow> s3))"
    by (simp add: getCached2_def projections g split: prod.splits sum.splits)
  show "Fetcher \<in> set (events (getCached redis key fetcher ttl s))"
    by (simp add: getCached_def projections g split: prod.splits sum.splits)
  show "Fetcher \<in> set (events (getCached2 redis key fetcher ttl s))"
    by (simp add: getCached2_def projections g split: prod.splits sum.splits)
next
  assume n: "outcome (getCached redis key fetcher ttl s) = Inr None"
  show "\<exists>s'. fst (fetcher s') = Inr None"
  proof (cases "redis_get redis key s")
    case (Pair g s1)
    show ?thesis
    proof (cases g)
      case (Inl e)
      with Pair n have "fst (fetcher s1) = Inr None"
        by (simp add: getCached_def projections split: prod.splits)
      then show ?thesis ..
    next
      case (Inr c)
      show ?thesis
      proof (cases c)
        case None
        obtain r s2 where f: "fetcher s1 = (r, s2)" by (cases "fetcher s1")
        show ?thesis
        proof (cases r)
          case (Inl e)
          with Pair Inr None f n have "fst (fetcher s2) = Inr None"
            by (simp add: getCached_def projections split: prod.splits)
          then show ?thesis ..
        next
          case (Inr data)
          with Pair \<open>g = Inr c\<close> None f n have "fst (fetcher s1) = Inr None"
            by (simp add: getCached_def projections split: prod.splits sum.splits)
          then show ?thesis ..
        qed
      next
        case (Some v)
        with Pair Inr n show ?thesis
          by (simp add: getCached_def projections)
      qed
    qed
  qed
next
  assume n: "outcome (getCached2 redis key fetcher ttl s) = Inr None"
  show "\<exists>s'. fst (fetcher s') = Inr None"
  proof (cases "redis_get redis key s")
    case (Pair g s1)
    show ?thesis
    proof (cases g)
      case (Inl e)
      with Pair n have "fst (fetcher s1) = Inr None"
        by (simp add: getCached2_def projections split: prod.splits)
      then show ?thesis ..
    next
      case (Inr c)
      show ?thesis
      proof (cases c)
        case None
        obtain r s2 where f: "fetcher s1 = (r, s2)" by (cases "fetcher s1")
        show ?thesis
        proof (cases r)
          case (Inl e)
          with Pair Inr None f n have "fst (fetcher s2) = Inr None"
            by (simp add: getCached2_def projections split: prod.splits)
          then show ?thesis ..
        next
          case (Inr data)
          obtain r3 s3 where w: "redis_setex redis key (ttl_or_default ttl) data s2 = (r3, s3)"
            by (cases "redis_setex redis key (ttl_or_default ttl) data s2")
          show ?thesis
          proof (cases r3)
            case (Inl e3)
            with Pair \<open>g = Inr c\<close> None f Inr w n have "fst (fetcher s3) = Inr None"
              by (simp add: getCached2_def projections split: prod.splits)
            then show ?thesis ..
          next
            case (Inr u)
            with Pair \<open>g = Inr c\<close> None f \<open>r = Inr data\<close> w n have "fst (fetcher s1) = Inr None"
              by (simp add: getCached2_def projections)
            then show ?thesis ..
          qed
        qed
      next
        case (Some v)
        with Pair Inr n show ?thesis
          by (simp add: getCached2_def projections)
      qed
    qed
  qed
qed

theorem getCached_null_is_miss_witness:
  "redis_get memory_redis ''altar:a1''
      \<lparr>entries = [(''altar:a1'', None :: nat option)], cache_up = True, db_calls = 0\<rparr>
     = (Inr None, \<lparr>entries = [(''altar:a1'', None)], cache_up = True, db_calls = 0\<rparr>)
   \<and> outcome (getCached memory_redis ''altar:a1'' (steady_fetcher 9) None
      \<lparr>entries = [(''altar:a1'', None :: nat option)], cache_up = True, db_calls = 0\<rparr>)
     = Inr (Some 9)
   \<and> final (getCached memory_redis ''altar:a1'' (steady_fetcher 9) None
      \<lparr>entries = [(''altar:a1'', None :: nat option)], cache_up = True, db_calls = 0\<rparr>)
     = \<lparr>entries = [(''altar:a1'', Some 9)], cache_up = True, db_calls = 1\<rparr>
   \<and> outcome (getCached2 memory_redis ''altar:a1'' (steady_fetcher 9) None
      \<lparr>entries = [(''altar:a1'', None :: nat option)], cache_up = True, db_calls = 0\<rparr>)
     = Inr (Some 9)
   \<and> final (getCached2 memory_redis ''altar:a1'' (steady_fetcher 9) None
      \<lparr>entries = [(''altar:a1'', None :: nat option)], cache_up = True, db_calls = 0\<rparr>)
     = \<lparr>entries = [(''altar:a1'', Some 9)], cache_up = True, db_calls = 1\<rparr>
   \<and> outcome (getCached memory_redis ''altar:a1'' null_fetcher None
      \<lparr>entries = [(''altar:a1'', None :: nat option)], cache_up = True, db_calls = 0\<rparr>)
     = Inr None
   \<and> outcome (getCached2 memory_redis ''altar:a1'' null_fetcher None
      \<lparr>entries = [(''altar:a1'', None :: nat option)], cache_up = True, db_calls = 0\<rparr>)
     = Inr None
   \<and> (\<exists>s'. fst ((null_fetcher :: (nat env, string, nat option) js) s') = Inr None)"
proof -
  let ?w = "\<lparr>entries = [(''altar:a1'', None :: nat option)], cache_up = True, db_calls = 0\<rparr>"
  have h: "redis_get memory_redis ''altar:a1'' ?w = (Inr None, ?w)"
    by (simp add: memory_redis_def)
  have o1: "outcome (getCached memory_redis ''altar:a1'' null_fetcher None ?w) = Inr None"
    by (simp add: getCached_def memory_redis_def null_fetcher_def projections)
  have o2: "outcome (getCached2 memory_redis ''altar:a1'' null_fetcher None ?w) = Inr None"
    by (simp add: getCached2_def memory_redis_def null_fetcher_def projections)
  have f: "steady_fetcher (9::nat) ?w
      = (Inr (Some 9), \<lparr>entries = [(''altar:a1'', None)], cache_up = True, db_calls = 1\<rparr>)"
    by (simp add: steady_fetcher_def)
  note miss = getCached_null_is_miss [of memory_redis "''altar:a1''" ?w ?w "steady_fetcher 9" None]
  from miss h have "outcome (getCached memory_redis ''altar:a1'' (steady_fetcher 9) None ?w)
      = (case steady_fetcher 9 ?w of
           (Inl e, s2) \<Rightarrow> fst (steady_fetcher 9 s2)
         | (Inr data, s2) \<Rightarrow> Inr data)"
    by blast
  then have a1: "outcome (getCached memory_redis ''altar:a1'' (steady_fetcher 9) None ?w)
      = Inr (Some 9)"
    by (simp add: f)
  from miss h have "final (getCached memory_redis ''altar:a1'' (steady_fetcher 9) None ?w)
      = (case steady_fetcher 9 ?w of
           (Inl e, s2) \<Rightarrow> snd (steady_fetcher 9 s2)
         | (Inr data, s2) \<Rightarrow>
             snd (redis_setex memory_redis ''altar:a1'' (ttl_or_default None) data s2))"
    by blast
  then have a2: "final (getCached memory_redis ''altar:a1'' (steady_fetcher 9) None ?w)
      = \<lparr>entries = [(''altar:a1'', Some 9)], cache_up = True, db_calls = 1\<rparr>"
    by (simp add: f memory_redis_def)
  from miss h have "outcome (getCached2 memory_redis ''altar:a1'' (steady_fetcher 9) None ?w)
      = (case steady_fetcher 9 ?w of
           (Inl e, s2) \<Rightarrow> fst (steady_fetcher 9 s2)
         | (Inr data, s2) \<Rightarrow>
             (case redis_setex memory_redis ''altar:a1'' (ttl_or_default None) data s2 of
                (Inl e, s3) \<Rightarrow> fst (steady_fetcher 9 s3)
              | (Inr u, s3) \<Rightarrow> Inr data))"
    by blast
  then have a3: "outcome (getCached2 memory_redis ''altar:a1'' (steady_fetcher 9) None ?w)
      = Inr (Some 9)"
    by (simp add: f memory_redis_def)
  from miss h have "final (getCached2 memory_redis ''altar:a1'' (steady_fetcher 9) None ?w)
      = (case steady_fetcher 9 ?w of
           (Inl e, s2) \<Rightarrow> snd (steady_fetcher 9 s2)
         | (Inr data, s2) \<Rightarrow>
             (case redis_setex memory_redis ''altar:a1'' (ttl_or_default None) data s2 of
                (Inl e, s3) \<Rightarrow> snd (steady_fetcher 9 s3)
              | (Inr u, s3) \<Rightarrow> s3))"
    by blast
  then have a4: "final (getCached2 memory_redis ''altar:a1'' (steady_fetcher 9) None ?w)
      = \<lparr>entries = [(''altar:a1'', Some 9)], cache_up = True, db_calls = 1\<rparr>"
    by (simp add: f memory_redis_def)
  from getCached_null_is_miss [of memory_redis "''altar:a1''" ?w ?w null_fetcher None] o1
  have e: "\<exists>s'. fst ((null_fetcher :: (nat env, string, nat option) js) s') = Inr None"
    by blast
  from h a1 a2 a3 a4 o1 o2 e show ?thesis
    by blast
qed

section \<open>Properties of the TTL values and of invalidation\<close>

text \<open>
  C7 (TTL policy), as the claim states it: the TTL of computed price calculations,
  \<open>CALCULATION\<close>, would be the \<open>MEDIUM\<close> value. It is not: \<open>CALCULATION\<close> is
  600 seconds ("10 minutes" in the source) and \<open>MEDIUM\<close> is 1800.
\<close>

theorem CACHE_TTL_calculation_counterexample:
  "CALCULATION CACHE_TTL \<noteq> MEDIUM CACHE_TTL"
  by (simp add: CACHE_TTL_def)

text \<open>
  C7, amended. The catalogue, configuration, extra-item and discount-rule TTLs equal the
  \<open>LONG\<close> value (3600 s); the TTL of price-calculation results is 600 s, longer than
  \<open>SHORT\<close> and shorter than \<open>MEDIUM\<close>; the TTL named \<open>PRICING\<close> equals
  \<open>MEDIUM\<close>.
\<close>

theorem CACHE_TTL_classes:
  "CATALOG CACHE_TTL = LONG CACHE_TTL
   \<and> CONFIG CACHE_TTL = LONG CACHE_TTL
   \<and> EXTRAS CACHE_TTL = LONG CACHE_TTL
   \<and> DISCOUNTS CACHE_TTL = LONG CACHE_TTL
   \<and> CALCULATION CACHE_TTL = 600
   \<and> SHORT CACHE_TTL < CALCULATION CACHE_TTL
   \<and> CALCULATION CACHE_TTL < MEDIUM CACHE_TTL
   \<and> PRICING CACHE_TTL = MEDIUM CACHE_TTL"
  by (simp add: CACHE_TTL_def)

text \<open>
  The catalogue reader writes with the long TTL: on a miss that the data store answers,
  the entry goes to the cache under \<open>altares:all\<close> for \<open>LONG\<close> seconds.
\<close>

lemma getAltares_writes_long_ttl:
  assumes "redis_get redis (ALTARES_ALL CACHE_KEYS) s = (Inr None, s1)"
    and "query s1 = (Inr data, s2)"
  shows "RedisSetex ''altares:all'' (LONG CACHE_TTL) data \<in> set (events (getAltares redis query s))"
  using assms
  by (simp add: getAltares_def getCached_def projections ttl_or_default_def CACHE_TTL_def
      CACHE_KEYS_def split: prod.splits sum.splits)

subsection \<open>Invalidation\<close>






lemma invalidateCache_unreachable:
  assumes "\<not> cache_up w"
  shows "snd (invalidateCache memory_redis p w) = w"
  using assms by (simp add: invalidateCache_def memory_redis_def)

lemma deleteCache_reachable:
  assumes "cache_up w"
  shows "snd (deleteCache memory_redis k w) = w\<lparr>entries := filter (\<lambda>e. fst e \<noteq> k) (entries w)\<rparr>"
  using assms by (simp add: deleteCache_def memory_redis_def)




text \<open>
  On a cache that throws, the prefix-deletes are issued all the same, each logs its
  error and returns, and the entries are as they were.
\<close>

lemma invalidateOnMutation_unreachable:
  assumes "\<not> cache_up w"
  shows "snd (invalidateOnMutation memory_redis entity w) = w"
  using assms
  by (simp add: invalidateOnMutation_def invalidateCache_def memory_redis_def
      split: prod.splits)

section \<open>Properties of the cache key of a price calculation\<close>

text \<open>The sort keeps the elements, and sorts them when the comparator is consistent.\<close>

lemma mset_insert_by: "mset (insert_by cmp x ys) = add_mset x (mset ys)"
  by (induction ys) auto

lemma mset_js_sort: "mset (js_sort cmp xs) = mset xs"
  by (induction xs) (auto simp: js_sort_def mset_insert_by)

lemma set_insert_by: "set (insert_by cmp x ys) = insert x (set ys)"
  by (induction ys) auto

lemma set_js_sort: "set (js_sort cmp xs) = set xs"
  by (induction xs) (auto simp: js_sort_def set_insert_by)

lemma sorted_insert_by:
  assumes tot: "\<forall>a\<in>S. \<forall>b\<in>S. cmp a b \<le> 0 \<or> cmp b a \<le> 0"
    and tr: "\<forall>a\<in>S. \<forall>b\<in>S. \<forall>c\<in>S. cmp a b \<le> 0 \<and> cmp b c \<le> 0 \<longrightarrow> cmp a c \<le> 0"
  shows "x \<in> S \<Longrightarrow> set ys \<subseteq> S \<Longrightarrow> sorted_wrt (\<lambda>a b. cmp a b \<le> 0) ys
      \<Longrightarrow> sorted_wrt (\<lambda>a b. cmp a b \<le> 0) (insert_by cmp x ys)"
proof (induction ys)
  case Nil
  then show ?case by simp
next
  case (Cons y ys)
  show ?case
  proof (cases "cmp x y \<le> 0")
    case True
    have "\<forall>z\<in>set ys. cmp x z \<le> 0"
    proof
      fix z assume z: "z \<in> set ys"
      with Cons.prems have "cmp y z \<le> 0" by simp
      with True tr Cons.prems z show "cmp x z \<le> 0" by (meson list.set_intros subsetD)
    qed
    with True Cons.prems show ?thesis by simp
  next
    case False
    with tot Cons.prems have yx: "cmp y x \<le> 0" by (meson list.set_intros(1) subsetD)
    have "sorted_wrt (\<lambda>a b. cmp a b \<le> 0) (insert_by cmp x ys)"
      using Cons by simp
    with False yx Cons.prems show ?thesis by (simp add: set_insert_by)
  qed
qed

lemma sorted_js_sort:
  assumes tot: "\<forall>a\<in>S. \<forall>b\<in>S. cmp a b \<le> 0 \<or> cmp b a \<le> 0"
    and tr: "\<forall>a\<in>S. \<forall>b\<in>S. \<forall>c\<in>S. cmp a b \<le> 0 \<and> cmp b c \<le> 0 \<longrightarrow> cmp a c \<le> 0"
  shows "set xs \<subseteq> S \<Longrightarrow> sorted_wrt (\<lambda>a b. cmp a b \<le> 0) (js_sort cmp xs)"
proof (induction xs)
  case Nil
  then show ?case by (simp add: js_sort_def)
next
  case (Cons x xs)
  then have "sorted_wrt (\<lambda>a b. cmp a b \<le> 0) (js_sort cmp xs)" by simp
  moreover have "set (js_sort cmp xs) \<subseteq> S" using Cons.prems by (simp add: set_js_sort)
  moreover have "x \<in> S" using Cons.prems by simp
  ultimately have "sorted_wrt (\<lambda>a b. cmp a b \<le> 0) (insert_by cmp x (js_sort cmp xs))"
    by (intro sorted_insert_by [OF tot tr])
  then show ?case by (simp add: js_sort_def)
qed

lemma sorted_wrt_unique:
  assumes anti: "\<forall>a\<in>set xs. \<forall>b\<in>set xs. R a b \<and> R b a \<longrightarrow> a = b"
  shows "sorted_wrt R xs \<Longrightarrow> sorted_wrt R ys \<Longrightarrow> mset xs = mset ys \<Longrightarrow> xs = ys"
  using anti
proof (induction xs arbitrary: ys)
  case Nil
  then show ?case by simp
next
  case (Cons x xs)
  from Cons.prems(3) obtain y ys' where ys: "ys = y # ys'"
    by (cases ys) auto
  have sets: "set (x # xs) = set (y # ys')"
    using Cons.prems(3) ys by (metis mset_eq_setD)
  have "x = y"
  proof (rule ccontr)
    assume ne: "x \<noteq> y"
    with sets have "x \<in> set ys'" "y \<in> set xs" by auto
    with Cons.prems(1,2) ys have "R y x" "R x y" by auto
    moreover have "x \<in> set (x # xs)" "y \<in> set (x # xs)" using \<open>y \<in> set xs\<close> by auto
    ultimately have "x = y" using Cons.prems(4) by blast
    with ne show False by contradiction
  qed
  with Cons.prems(3) ys have m: "mset xs = mset ys'" by simp
  have "xs = ys'"
    using Cons.prems(1,2,4) ys m by (intro Cons.IH) auto
  with \<open>x = y\<close> ys show ?case by simp
qed

text \<open>Two entries that the comparator calls equal keep the order in which they came.\<close>

lemma js_sort_tie_keeps_order:
  "cmp a b = 0 \<Longrightarrow> js_sort cmp [a, b] = [a, b]"
  by (simp add: js_sort_def)

lemma generatePriceCalcHash_tie_keeps_order:
  assumes "localeCompare (itemId a) (itemId b) = 0"
  shows "generatePriceCalcHash localeCompare toString (p\<lparr>extras := Some [a, b]\<rparr>)
       = grosorId p @ ''-'' @ alturaId p @ ''-'' @ anchuraId p @ ''-''
         @ (if pintado p then ''1'' else ''0'') @ ''-''
         @ itemId a @ '':'' @ toString (cantidad a) @ '',''
         @ itemId b @ '':'' @ toString (cantidad b)"
  using assms by (simp add: generatePriceCalcHash_def js_sort_def)

text \<open>
  C2 (key canonicalization), as the claim states it: any two extras lists that are
  permutations of each other would give the same key. The comparator looks at
  \<open>itemId\<close> only and the sort is stable, so two entries with the same \<open>itemId\<close>
  and different quantities stay in the order in which they came: the two orders of
  such a list give two keys.
\<close>

theorem generatePriceCalcHash_duplicate_counterexample:
  "mset [\<lparr>itemId = ''a'', cantidad = 1::int\<rparr>, \<lparr>itemId = ''a'', cantidad = 2\<rparr>]
     = mset [\<lparr>itemId = ''a'', cantidad = 2\<rparr>, \<lparr>itemId = ''a'', cantidad = 1\<rparr>]
   \<and> generatePriceCalcHash code_unit_compare number_to_string
       \<lparr>grosorId = ''g'', alturaId = ''h'', anchuraId = ''w'', pintado = False,
        extras = Some [\<lparr>itemId = ''a'', cantidad = 1\<rparr>, \<lparr>itemId = ''a'', cantidad = 2\<rparr>]\<rparr>
     \<noteq> generatePriceCalcHash code_unit_compare number_to_string
       \<lparr>grosorId = ''g'', alturaId = ''h'', anchuraId = ''w'', pintado = False,
        extras = Some [\<lparr>itemId = ''a'', cantidad = 2\<rparr>, \<lparr>itemId = ''a'', cantidad = 1\<rparr>]\<rparr>"
  by (simp add: generatePriceCalcHash_def js_sort_def number_to_string_def digits.simps
      digit_char_def)

text \<open>
  C2, amended. With \<open>grosorId\<close>, \<open>alturaId\<close>, \<open>anchuraId\<close> and the paint flag held
  fixed, two extras lists that are permutations of each other give the same key,
  provided that \<open>localeCompare\<close> is a consistent comparator on the identifiers of the
  list (\<open>localeCompare(a, b)\<close> is negative exactly when \<open>localeCompare(b, a)\<close> is
  positive, and "not after" is transitive) and that no two different entries of the
  list carry identifiers that \<open>localeCompare\<close> calls equal (result \<open>0\<close>). This holds
  for every way of printing the quantity.
\<close>

theorem generatePriceCalcHash_canonical:
  assumes perm: "mset xs = mset ys"
    and cons: "consistent_on localeCompare (itemId ` set xs)"
    and ties: "\<forall>a\<in>set xs. \<forall>b\<in>set xs. localeCompare (itemId a) (itemId b) = 0 \<longrightarrow> a = b"
  shows "generatePriceCalcHash localeCompare toString (p\<lparr>extras := Some xs\<rparr>)
       = generatePriceCalcHash localeCompare toString (p\<lparr>extras := Some ys\<rparr>)"
proof -
  let ?cmp = "\<lambda>a b. localeCompare (itemId a) (itemId b)"
  let ?R = "\<lambda>a b. ?cmp a b \<le> 0"
  have tot: "\<forall>a\<in>set xs. \<forall>b\<in>set xs. ?cmp a b \<le> 0 \<or> ?cmp b a \<le> 0"
  proof (intro ballI)
    fix a b assume a: "a \<in> set xs" and b: "b \<in> set xs"
    have "(?cmp b a < 0) = (0 < ?cmp a b)"
      using cons a b unfolding consistent_on_def by blast
    then show "?cmp a b \<le> 0 \<or> ?cmp b a \<le> 0" by linarith
  qed
  have tr: "\<forall>a\<in>set xs. \<forall>b\<in>set xs. \<forall>c\<in>set xs. ?cmp a b \<le> 0 \<and> ?cmp b c \<le> 0 \<longrightarrow> ?cmp a c \<le> 0"
    using cons unfolding consistent_on_def by blast
  have anti: "\<forall>a\<in>set xs. \<forall>b\<in>set xs. ?R a b \<and> ?R b a \<longrightarrow> a = b"
  proof (intro ballI impI)
    fix a b assume a: "a \<in> set xs" and b: "b \<in> set xs" and r: "?R a b \<and> ?R b a"
    have "(?cmp a b < 0) = (0 < ?cmp b a)"
      using cons a b unfolding consistent_on_def by blast
    with r have "?cmp a b = 0" by linarith
    with ties a b show "a = b" by blast
  qed
  have sets: "set ys = set xs" using perm by (metis mset_eq_setD)
  have s1: "sorted_wrt ?R (js_sort ?cmp xs)"
    by (rule sorted_js_sort [OF tot tr]) simp
  have s2: "sorted_wrt ?R (js_sort ?cmp ys)"
    by (rule sorted_js_sort [OF tot tr]) (simp add: sets)
  have m: "mset (js_sort ?cmp xs) = mset (js_sort ?cmp ys)"
    by (simp add: mset_js_sort perm)
  have anti': "\<forall>a\<in>set (js_sort ?cmp xs). \<forall>b\<in>set (js_sort ?cmp xs). ?R a b \<and> ?R b a \<longrightarrow> a = b"
    using anti by (simp add: set_js_sort)
  have "js_sort ?cmp xs = js_sort ?cmp ys"
    by (rule sorted_wrt_unique [OF anti' s1 s2 m])
  then show ?thesis
    by (simp add: generatePriceCalcHash_def)
qed

theorem generatePriceCalcHash_canonical_witness:
  "generatePriceCalcHash code_unit_compare number_to_string
       \<lparr>grosorId = ''g'', alturaId = ''h'', anchuraId = ''w'', pintado = True,
        extras = Some [\<lparr>itemId = ''b'', cantidad = 2::int\<rparr>, \<lparr>itemId = ''a'', cantidad = 1\<rparr>]\<rparr>
     = generatePriceCalcHash code_unit_compare number_to_string
       \<lparr>grosorId = ''g'', alturaId = ''h'', anchuraId = ''w'', pintado = True,
        extras = Some [\<lparr>itemId = ''a'', cantidad = 1\<rparr>, \<lparr>itemId = ''b'', cantidad = 2\<rparr>]\<rparr>
   \<and> generatePriceCalcHash code_unit_compare number_to_string
       \<lparr>grosorId = ''g'', alturaId = ''h'', anchuraId = ''w'', pintado = True,
        extras = Some [\<lparr>itemId = ''b'', cantidad = 2::int\<rparr>, \<lparr>itemId = ''a'', cantidad = 1\<rparr>]\<rparr>
     = ''g-h-w-1-a:1,b:2''"
proof -
  let ?xs = "[\<lparr>itemId = ''b'', cantidad = 2::int\<rparr>, \<lparr>itemId = ''a'', cantidad = 1\<rparr>]"
  let ?ys = "[\<lparr>itemId = ''a'', cantidad = 1::int\<rparr>, \<lparr>itemId = ''b'', cantidad = 2\<rparr>]"
  let ?p = "\<lparr>grosorId = ''g'', alturaId = ''h'', anchuraId = ''w'', pintado = True,
            extras = None :: int extra list option\<rparr>"
  have h1: "mset ?xs = mset ?ys"
    by simp
  have h2: "consistent_on code_unit_compare (itemId ` set ?xs)"
    by (simp add: consistent_on_def)
  have h3: "\<forall>a\<in>set ?xs. \<forall>b\<in>set ?xs. code_unit_compare (itemId a) (itemId b) = 0 \<longrightarrow> a = b"
    by simp
  have v: "generatePriceCalcHash code_unit_compare number_to_string (?p\<lparr>extras := Some ?ys\<rparr>)
      = ''g-h-w-1-a:1,b:2''"
    by (simp add: generatePriceCalcHash_def js_sort_def number_to_string_def digits.simps
        digit_char_def)
  show ?thesis
    using generatePriceCalcHash_canonical [OF h1 h2 h3, of number_to_string ?p] v
    by simp
qed

section \<open>Properties of discounts, price resolution and totals\<close>

subsection \<open>The discount tier\<close>

lemma round_div_nearest:
  "2 * x - 10000 < 20000 * round_div x 10000 \<and> 20000 * round_div x 10000 \<le> 2 * x + 10000"
proof -
  let ?a = "2 * x + 10000"
  have "?a div 20000 * 20000 + ?a mod 20000 = ?a"
    by (rule div_mult_mod_eq)
  moreover have "0 \<le> ?a mod 20000" and "?a mod 20000 < 20000"
    by simp_all
  moreover have "round_div x 10000 = ?a div 20000"
    by (simp add: round_div_def)
  ultimately show ?thesis
    by linarith
qed

lemma best_tier_None:
  "best_tier best ts n = None \<longleftrightarrow> best = None \<and> (\<forall>t\<in>set ts. \<not> qualifies t n)"
  by (induction ts arbitrary: best) auto

lemma best_tier_Some:
  "best_tier best ts n = Some r \<Longrightarrow>
     (best = Some r \<or> (r \<in> set ts \<and> qualifies r n))
     \<and> (\<forall>t\<in>set ts. qualifies t n \<longrightarrow> minQuantity t \<le> minQuantity r)
     \<and> (\<forall>b. best = Some b \<longrightarrow> minQuantity b \<le> minQuantity r)"
proof (induction ts arbitrary: best)
  case Nil
  then show ?case by simp
next
  case (Cons t ts)
  let ?best = "if qualifies t n \<and> (case best of None \<Rightarrow> True | Some b \<Rightarrow> minQuantity b < minQuantity t)
        then Some t else best"
  from Cons.prems have "best_tier ?best ts n = Some r" by simp
  from Cons.IH [OF this] have
    a: "?best = Some r \<or> (r \<in> set ts \<and> qualifies r n)"
    and b: "\<forall>u\<in>set ts. qualifies u n \<longrightarrow> minQuantity u \<le> minQuantity r"
    and c: "\<forall>b. ?best = Some b \<longrightarrow> minQuantity b \<le> minQuantity r"
    by blast+
  show ?case
  proof (cases "qualifies t n \<and> (case best of None \<Rightarrow> True | Some b \<Rightarrow> minQuantity b < minQuantity t)")
    case True
    with a b c show ?thesis by (auto split: option.splits)
  next
    case False
    with a b c show ?thesis by (fastforce split: option.splits)
  qed
qed

text \<open>
  C3 (discount tier selection). For every list of tiers and every item count: when
  \<open>applyDiscount\<close> applies a tier, it is a tier of the list that is active, whose
  \<open>minQuantity\<close> the item count reaches, and no active tier that the item count
  reaches has a larger \<open>minQuantity\<close>; the amount is \<open>subtotal \<times> percentage / 100\<close>
  rounded to the centavo (in hundredths: the integer within a half of
  \<open>sub \<times> percentage / 10000\<close>). When it applies none, no active tier is reached by
  the item count, and the amount is \<open>0\<close>.
\<close>

theorem applyDiscount_selects_tier:
  "(case applyDiscount tiers itemCount sub of
      (None, d) \<Rightarrow>
        d = 0 \<and> (\<forall>t\<in>set tiers. \<not> (tierActive t \<and> minQuantity t \<le> itemCount))
    | (Some t, d) \<Rightarrow>
        t \<in> set tiers \<and> tierActive t \<and> minQuantity t \<le> itemCount
        \<and> (\<forall>u\<in>set tiers. tierActive u \<and> minQuantity u \<le> itemCount
              \<longrightarrow> minQuantity u \<le> minQuantity t)
        \<and> 2 * (sub * percentage t) - 10000 < 20000 * d
        \<and> 20000 * d \<le> 2 * (sub * percentage t) + 10000)"
proof (cases "best_tier None tiers itemCount")
  case None
  then have "\<forall>t\<in>set tiers. \<not> (tierActive t \<and> minQuantity t \<le> itemCount)"
    by (simp add: best_tier_None qualifies_def)
  with None show ?thesis
    by (simp add: applyDiscount_def)
next
  case (Some t)
  from best_tier_Some [OF Some] have "t \<in> set tiers" "qualifies t itemCount"
    "\<forall>u\<in>set tiers. qualifies u itemCount \<longrightarrow> minQuantity u \<le> minQuantity t"
    by auto
  with Some round_div_nearest [of "sub * percentage t"] show ?thesis
    by (simp add: applyDiscount_def qualifies_def)
qed

theorem applyDiscount_selects_tier_witness:
  "applyDiscount seed_tiers 12 150000
     = (Some \<lparr>minQuantity = 10, percentage = 1500, tierActive = True\<rparr>, 22500)
   \<and> applyDiscount seed_tiers 6 150000
     = (Some \<lparr>minQuantity = 5, percentage = 1000, tierActive = True\<rparr>, 15000)
   \<and> applyDiscount seed_tiers 4 150000 = (None, 0)"
  using applyDiscount_selects_tier [of seed_tiers 12 150000]
    applyDiscount_selects_tier [of seed_tiers 6 150000]
    applyDiscount_selects_tier [of seed_tiers 4 150000]
  by (simp add: applyDiscount_def seed_tiers_def qualifies_def round_div_def)

subsection \<open>The matched rule\<close>

lemma narrower_trans: "narrower a b \<Longrightarrow> narrower b c \<Longrightarrow> narrower a c"
  by (auto simp: narrower_def)

lemma not_narrower: "\<not> narrower a b \<longleftrightarrow> area b < area a \<or> (area b = area a \<and> ruleId b \<le> ruleId a)"
  by (auto simp: narrower_def)

lemma narrowest_min:
  "narrowest r0 rs \<in> set (r0 # rs) \<and> (\<forall>r'\<in>set (r0 # rs). \<not> narrower r' (narrowest r0 rs))"
proof (induction rs arbitrary: r0)
  case Nil
  then show ?case by (simp add: narrower_def)
next
  case (Cons r rs)
  let ?b = "if narrower r r0 then r else r0"
  from Cons.IH [of ?b] have mem: "narrowest ?b rs \<in> set (?b # rs)"
    and mn: "\<forall>r'\<in>set (?b # rs). \<not> narrower r' (narrowest ?b rs)" by blast+
  have nb: "\<not> narrower ?b (narrowest ?b rs)" using mn by simp
  have "\<not> narrower r0 (narrowest ?b rs)"
  proof (cases "narrower r r0")
    case True
    show ?thesis
    proof
      assume "narrower r0 (narrowest ?b rs)"
      with True have "narrower r (narrowest ?b rs)" by (rule narrower_trans)
      with nb True show False by simp
    qed
  next
    case False
    with nb show ?thesis by simp
  qed
  moreover have "\<not> narrower r (narrowest ?b rs)"
  proof (cases "narrower r r0")
    case True
    with nb show ?thesis by simp
  next
    case False
    show ?thesis
    proof
      assume n: "narrower r (narrowest ?b rs)"
      from nb False have "\<not> narrower r0 (narrowest ?b rs)" by simp
      with n False show False by (auto simp: narrower_def)
    qed
  qed
  ultimately show ?case using mem mn by auto
qed

lemma resolve_min:
  assumes "resolve rules th h w = Inr r"
  shows "r \<in> set rules \<and> matches r th h w \<and> (\<forall>r'\<in>set rules. matches r' th h w \<longrightarrow> \<not> narrower r' r)"
proof -
  from assms obtain r0 rs where f: "filter (\<lambda>r. matches r th h w) rules = r0 # rs"
    and r: "r = narrowest r0 rs"
    by (auto simp: resolve_def split: list.splits)
  from narrowest_min [of r0 rs] r f
  have "r \<in> set (filter (\<lambda>r. matches r th h w) rules)"
    and "\<forall>r'\<in>set (filter (\<lambda>r. matches r th h w) rules). \<not> narrower r' r"
    by simp_all
  then show ?thesis by auto
qed

lemma resolve_Inl:
  "resolve rules th h w = Inl e \<longleftrightarrow> e = NoRuleMatchedError th h w \<and> (\<forall>r\<in>set rules. \<not> matches r th h w)"
proof (cases "filter (\<lambda>r. matches r th h w) rules")
  case Nil
  then show ?thesis by (auto simp: resolve_def filter_empty_conv)
next
  case (Cons r0 rs)
  then have "r0 \<in> set (filter (\<lambda>r. matches r th h w) rules)" by simp
  then have "r0 \<in> set rules \<and> matches r0 th h w" by simp
  with Cons show ?thesis by (auto simp: resolve_def)
qed

text \<open>
  C4 (price-rule tie-break). Whenever \<open>resolve\<close> answers with a rule, that rule is
  one of the matching rules, no matching rule has a smaller band area, and among the
  matching rules of the same area none has a smaller identifier. The choice does not
  depend on the order in which the rules are stored: any permutation of the rule set
  gives the same rule, identifiers being unique as primary keys are.
\<close>

theorem resolve_narrowest_band:
  assumes "resolve rules th h w = Inr r"
  shows "r \<in> set rules \<and> matches r th h w
     \<and> (\<forall>r'\<in>set rules. matches r' th h w \<longrightarrow>
           area r < area r' \<or> (area r = area r' \<and> ruleId r \<le> ruleId r'))
     \<and> (mset rules' = mset rules \<and> distinct (map ruleId rules) \<longrightarrow> resolve rules' th h w = Inr r)"
proof -
  note m = resolve_min [OF assms]
  have perm: "resolve rules' th h w = Inr r"
    if p: "mset rules' = mset rules" and d: "distinct (map ruleId rules)"
  proof -
    have sets: "set rules' = set rules" using p by (metis mset_eq_setD)
    have inj: "inj_on ruleId (set rules)" using d by (simp add: distinct_map)
    show ?thesis
    proof (cases "resolve rules' th h w")
      case (Inl e)
      with sets m show ?thesis by (auto simp: resolve_Inl)
    next
      case (Inr r2)
      note m2 = resolve_min [OF Inr]
      from m m2 sets have "\<not> narrower r2 r" "\<not> narrower r r2" by auto
      then have "ruleId r = ruleId r2" by (auto simp: narrower_def)
      with inj m m2 sets have "r = r2" by (auto dest: inj_onD)
      with Inr show ?thesis by simp
    qed
  qed
  from m perm show ?thesis by (auto simp: not_narrower)
qed

theorem resolve_narrowest_band_witness:
  "resolve overlapping_rules ''grosor_3mm'' 4000 2500 = Inr (overlapping_rules ! 1)
   \<and> resolve (rev overlapping_rules) ''grosor_3mm'' 4000 2500 = Inr (overlapping_rules ! 1)
   \<and> resolve tied_rules ''grosor_3mm'' 4000 2500 = Inr (tied_rules ! 1)
   \<and> resolve (rev tied_rules) ''grosor_3mm'' 4000 2500 = Inr (tied_rules ! 1)"
proof -
  have h: "resolve overlapping_rules ''grosor_3mm'' 4000 2500 = Inr (overlapping_rules ! 1)"
    by (simp add: resolve_def overlapping_rules_def matches_def narrower_def area_def)
  have p: "mset (rev overlapping_rules) = mset overlapping_rules"
    by simp
  have d: "distinct (map ruleId overlapping_rules)"
    by (simp add: overlapping_rules_def)
  have h': "resolve tied_rules ''grosor_3mm'' 4000 2500 = Inr (tied_rules ! 1)"
    by (simp add: resolve_def tied_rules_def matches_def narrower_def area_def)
  have p': "mset (rev tied_rules) = mset tied_rules"
    by simp
  have d': "distinct (map ruleId tied_rules)"
    by (simp add: tied_rules_def)
  from resolve_narrowest_band [OF h, of "rev overlapping_rules"]
    resolve_narrowest_band [OF h', of "rev tied_rules"] h p d h' p' d'
  show ?thesis by blast
qed

subsection \<open>The total\<close>

text \<open>
  The quote of the calculator: the total is the line subtotal less the discount, and
  on data that keeps the constraints of the tables (positive prices, a percentage
  between 0 and 100) the discount lies between \<open>0\<close> and the subtotal, so the total
  is not negative.
\<close>

lemma applyDiscount_bounds:
  assumes pct: "\<forall>t\<in>set tiers. 0 \<le> percentage t \<and> percentage t \<le> 10000"
    and sub: "0 \<le> sub"
  shows "0 \<le> snd (applyDiscount tiers n sub) \<and> snd (applyDiscount tiers n sub) \<le> sub"
proof (cases "best_tier None tiers n")
  case None
  with sub show ?thesis by (simp add: applyDiscount_def)
next
  case (Some t)
  from best_tier_Some [OF Some] have "t \<in> set tiers" by auto
  with pct have p: "0 \<le> percentage t" "percentage t \<le> 10000" by auto
  have lo: "0 \<le> sub * percentage t" using sub p by simp
  have "sub * percentage t \<le> sub * 10000"
    using sub p by (intro mult_left_mono) auto
  with lo round_div_nearest [of "sub * percentage t"]
  have "0 \<le> round_div (sub * percentage t) 10000 \<and> round_div (sub * percentage t) 10000 \<le> sub"
    by linarith
  with Some show ?thesis by (simp add: applyDiscount_def)
qed

lemma computeQuote_total:
  assumes q: "computeQuote rules tiers config paint quantity extraItems n = Inr q"
    and prices: "\<forall>r\<in>set rules. 0 < basePrice r \<and> 0 < paintedPrice r"
    and ext: "\<forall>e\<in>set extraItems. 0 < price e"
    and pct: "\<forall>t\<in>set tiers. 0 \<le> percentage t \<and> percentage t \<le> 10000"
  shows "quoteTotal q = lineSubtotal q - discountAmount q \<and> 0 \<le> quoteTotal q
     \<and> 0 \<le> discountAmount q \<and> discountAmount q \<le> lineSubtotal q"
proof -
  from q have qty: "1 \<le> quantity"
    by (auto simp: computeQuote_def split: if_splits)
  from q obtain rule where
    r: "resolve rules (optionId (thickness config)) (optionValue (height config))
          (optionValue (width config)) = Inr rule"
    by (auto simp: computeQuote_def split: if_splits sum.splits)
  define unit where "unit = (if paint then paintedPrice rule else basePrice rule)"
  define line where "line = (unit + sum_list (map price extraItems)) * quantity"
  define disc where "disc = snd (applyDiscount tiers n line)"
  from q r qty have qe: "lineSubtotal q = line" "discountAmount q = disc" "quoteTotal q = line - disc"
    by (auto simp: computeQuote_def Let_def unit_def line_def disc_def split: if_splits)
  from resolve_min [OF r] have "rule \<in> set rules" by simp
  with prices have "0 < unit" by (simp add: unit_def)
  moreover have "0 \<le> sum_list (map price extraItems)"
    using ext by (intro sum_list_nonneg) auto
  ultimately have "0 \<le> line"
    using qty by (simp add: line_def)
  from applyDiscount_bounds [OF pct this, of n] have "0 \<le> disc \<and> disc \<le> line"
    by (simp add: disc_def)
  with qe show ?thesis by simp
qed

text \<open>
  The first three scenarios of the specification on the seed rows: 3 mm, 40 cm by 25 cm,
  one piece, unpainted and painted, and the gap at a height of 55 cm.
\<close>

lemma computeQuote_scenarios:
  "computeQuote seed_rules seed_tiers
     \<lparr> thickness = \<lparr>optionId = ''grosor_3mm'', optionValue = 300, available = True\<rparr>,
       height = \<lparr>optionId = ''altura_40'', optionValue = 4000, available = True\<rparr>,
       width = \<lparr>optionId = ''anchura_25'', optionValue = 2500, available = True\<rparr> \<rparr>
     False 1 [] 1
   = Inr \<lparr> unitPrice = 25000, extrasTotal = 0, lineSubtotal = 25000, discountAmount = 0,
           quoteTotal = 25000, matchedRuleId = Some ''r1'' \<rparr>"
  "computeQuote seed_rules seed_tiers
     \<lparr> thickness = \<lparr>optionId = ''grosor_3mm'', optionValue = 300, available = True\<rparr>,
       height = \<lparr>optionId = ''altura_40'', optionValue = 4000, available = True\<rparr>,
       width = \<lparr>optionId = ''anchura_25'', optionValue = 2500, available = True\<rparr> \<rparr>
     True 1 [] 1
   = Inr \<lparr> unitPrice = 35000, extrasTotal = 0, lineSubtotal = 35000, discountAmount = 0,
           quoteTotal = 35000, matchedRuleId = Some ''r1'' \<rparr>"
  "computeQuote seed_rules seed_tiers
     \<lparr> thickness = \<lparr>optionId = ''grosor_3mm'', optionValue = 300, available = True\<rparr>,
       height = \<lparr>optionId = ''altura_55'', optionValue = 5500, available = True\<rparr>,
       width = \<lparr>optionId = ''anchura_25'', optionValue = 2500, available = True\<rparr> \<rparr>
     False 1 [] 1
   = Inl (NoRuleMatchedError ''grosor_3mm'' 5500 2500)"
  by (simp_all add: computeQuote_def resolve_def seed_rules_def seed_tiers_def matches_def
      applyDiscount_def qualifies_def)

text \<open>
  The rows of \<open>pedidos\<close> that hold numbers or \<open>NULL\<close>: every accepted row has a
  total that is not negative, and every accepted row whose \<open>descuento\<close> is not
  \<open>NULL\<close> has \<open>total = subtotal - descuento\<close>.
\<close>

lemma pedidos_total_nonneg:
  assumes "pedidos_accepts r"
  shows "\<exists>s t. subtotal r = Some s \<and> total r = Some t \<and> 0 \<le> s \<and> 0 \<le> t"
  using assms
  by (auto simp: pedidos_accepts_def not_null_def check_holds_def check_positive_amounts_def
      sql_and_def sql_ge_def split: option.splits if_splits)

lemma pedidos_total_calculation:
  assumes "pedidos_accepts r" and "descuento r = Some d"
  shows "\<exists>s t. subtotal r = Some s \<and> total r = Some t \<and> t = s - d \<and> 0 \<le> d"
  using assms
  by (auto simp: pedidos_accepts_def not_null_def check_holds_def check_positive_amounts_def
      check_total_calculation_def sql_and_def sql_ge_def sql_eq_def sql_minus_def
      split: option.splits if_splits)

text \<open>
  C5 (total invariant). \<open>descuento\<close> is the one pricing column without
  \<open>NOT NULL\<close>. With \<open>descuento\<close> \<open>NULL\<close> both \<open>CHECK\<close> expressions are unknown,
  not false, so the table accepts the order \<open>subtotal = 100.00\<close>, \<open>descuento = NULL\<close>,
  \<open>total = 5.00\<close>: a persisted order for which \<open>total = subtotal - descuento\<close>
  is not true, and whose total is not its subtotal less a discount of \<open>0\<close> either.
\<close>

theorem pedidos_accepts_null_descuento:
  "pedidos_accepts \<lparr>subtotal = Some 10000, descuento = None, total = Some 500\<rparr>
   \<and> sql_eq (total \<lparr>subtotal = Some 10000, descuento = None, total = Some 500\<rparr>)
        (sql_minus (subtotal \<lparr>subtotal = Some 10000, descuento = None, total = Some 500\<rparr>)
           (descuento \<lparr>subtotal = Some 10000, descuento = None, total = Some 500\<rparr>))
       \<noteq> Some True
   \<and> sql_eq (total \<lparr>subtotal = Some 10000, descuento = None, total = Some 500\<rparr>)
        (sql_minus (subtotal \<lparr>subtotal = Some 10000, descuento = None, total = Some 500\<rparr>)
           (Some 0))
       = Some False"
  by (simp add: pedidos_accepts_def not_null_def check_holds_def check_positive_amounts_def
      check_total_calculation_def sql_and_def sql_ge_def sql_eq_def sql_minus_def
      decimal_10_2_def)

end
